theory Spec2Isabelle
  imports Main
begin

section \<open>Error codes and the error slot of a device\<close>

text \<open>
  \<^verbatim>\<open>enum class Error\<close> of \<^verbatim>\<open>oidn.hpp\<close>. The enumerator \<^verbatim>\<open>None\<close> is written
  \<open>NoneErr\<close>, since \<open>None\<close> is the empty option of HOL.
\<close>

datatype Error =
    NoneErr
  | Unknown
  | InvalidArgument
  | InvalidOperation
  | OutOfMemory
  | UnsupportedHardware
  | Cancelled

text \<open>
  Modelled from the spec: the error slot of a device. The classes behind the handles
  (\<^verbatim>\<open>Device\<close>, with its stored error) are not among the sources; the spec describes a
  single slot holding an error kind and a human-readable message.
\<close>

record ErrorState =
  code :: Error
  message :: string

definition noError :: ErrorState where
  "noError = \<lparr>code = NoneErr, message = ''''\<rparr>"

text \<open>
  Modelled from the spec: recording an error (the body of \<^verbatim>\<open>Device::setError\<close> is missing).
  A new error overwrites the slot only if the previous one was already retrieved or none
  was pending.
\<close>

definition setError :: "ErrorState \<Rightarrow> Error \<Rightarrow> string \<Rightarrow> ErrorState" where
  "setError slot c m = (if code slot = NoneErr then \<lparr>code = c, message = m\<rparr> else slot)"

text \<open>Modelled from the spec: retrieval returns the stored error and clears the slot.\<close>

definition takeError :: "ErrorState \<Rightarrow> (Error \<times> string) \<times> ErrorState" where
  "takeError slot = ((code slot, message slot), noError)"

section \<open>Work dimensions, work items and the threads of a launch\<close>

text \<open>
  \<^verbatim>\<open>WorkDim<N>\<close>, \<^verbatim>\<open>WorkItem<N>\<close>, \<^verbatim>\<open>WorkGroupItem<N>\<close> and \<^verbatim>\<open>ceil_div\<close> are used by
  \<^verbatim>\<open>cuda_device.h\<close> and declared elsewhere. A work dimension is a tuple of one, two or
  three extents; extents and indices are natural numbers.
\<close>

type_synonym WorkDim1 = nat
type_synonym WorkDim2 = "nat \<times> nat"
type_synonym WorkDim3 = "nat \<times> nat \<times> nat"

text \<open>
  The built-in variables a CUDA thread reads: the index of its block in the grid, the
  extent of a block, and its index in the block, each in the order of the components of
  the work dimension.
\<close>

record 'd cuda_thread =
  blockIdx :: 'd
  blockDim :: 'd
  threadIdx :: 'd

record 'd WorkItem =
  globalID :: 'd
  globalSize :: 'd

text \<open>
  Modelled from the spec: the constructor \<^verbatim>\<open>WorkItem<N>(globalSize)\<close> (missing). The
  coordinate of a work item is its group index times the group extent plus its index in
  the group, in every dimension; its range is the global extent.
\<close>

definition WorkItem1 :: "WorkDim1 \<Rightarrow> WorkDim1 cuda_thread \<Rightarrow> WorkDim1 WorkItem" where
  "WorkItem1 gsz t =
     \<lparr>globalID = blockIdx t * blockDim t + threadIdx t, globalSize = gsz\<rparr>"

definition WorkItem2 :: "WorkDim2 \<Rightarrow> WorkDim2 cuda_thread \<Rightarrow> WorkDim2 WorkItem" where
  "WorkItem2 gsz t =
     \<lparr>globalID = (fst (blockIdx t) * fst (blockDim t) + fst (threadIdx t),
                  snd (blockIdx t) * snd (blockDim t) + snd (threadIdx t)),
      globalSize = gsz\<rparr>"

definition WorkItem3 :: "WorkDim3 \<Rightarrow> WorkDim3 cuda_thread \<Rightarrow> WorkDim3 WorkItem" where
  "WorkItem3 gsz t =
     \<lparr>globalID =
        (fst (blockIdx t) * fst (blockDim t) + fst (threadIdx t),
         fst (snd (blockIdx t)) * fst (snd (blockDim t)) + fst (snd (threadIdx t)),
         snd (snd (blockIdx t)) * snd (snd (blockDim t)) + snd (snd (threadIdx t))),
      globalSize = gsz\<rparr>"

text \<open>\<^verbatim>\<open>getId()\<close>, \<^verbatim>\<open>getRange()\<close> and their per-dimension forms \<^verbatim>\<open>getId<i>()\<close>, \<^verbatim>\<open>getRange<i>()\<close>.\<close>

definition getId :: "'d WorkItem \<Rightarrow> 'd" where
  "getId it = globalID it"

definition getRange :: "'d WorkItem \<Rightarrow> 'd" where
  "getRange it = globalSize it"

definition getId2_0 :: "WorkDim2 WorkItem \<Rightarrow> nat" where "getId2_0 it = fst (globalID it)"
definition getId2_1 :: "WorkDim2 WorkItem \<Rightarrow> nat" where "getId2_1 it = snd (globalID it)"
definition getRange2_0 :: "WorkDim2 WorkItem \<Rightarrow> nat" where "getRange2_0 it = fst (globalSize it)"
definition getRange2_1 :: "WorkDim2 WorkItem \<Rightarrow> nat" where "getRange2_1 it = snd (globalSize it)"

definition getId3_0 :: "WorkDim3 WorkItem \<Rightarrow> nat" where "getId3_0 it = fst (globalID it)"
definition getId3_1 :: "WorkDim3 WorkItem \<Rightarrow> nat" where "getId3_1 it = fst (snd (globalID it))"
definition getId3_2 :: "WorkDim3 WorkItem \<Rightarrow> nat" where "getId3_2 it = snd (snd (globalID it))"
definition getRange3_0 :: "WorkDim3 WorkItem \<Rightarrow> nat" where "getRange3_0 it = fst (globalSize it)"
definition getRange3_1 :: "WorkDim3 WorkItem \<Rightarrow> nat" where
  "getRange3_1 it = fst (snd (globalSize it))"
definition getRange3_2 :: "WorkDim3 WorkItem \<Rightarrow> nat" where
  "getRange3_2 it = snd (snd (globalSize it))"

text \<open>
  Modelled from the spec: \<^verbatim>\<open>WorkGroupItem<N>()\<close> (missing), the view a work-group kernel
  has of its thread: group index, index in the group, and group extent.
\<close>

record 'd WorkGroupItem =
  groupID :: 'd
  localID :: 'd
  localSize :: 'd

definition WorkGroupItem :: "'d cuda_thread \<Rightarrow> 'd WorkGroupItem" where
  "WorkGroupItem t = \<lparr>groupID = blockIdx t, localID = threadIdx t, localSize = blockDim t\<rparr>"

text \<open>
  Modelled from the spec: \<^verbatim>\<open>ceil_div\<close> (missing), the ceiling division that sizes the
  grid, applied to each dimension.
\<close>

definition ceil_div :: "nat \<Rightarrow> nat \<Rightarrow> nat" where
  "ceil_div a b = (a + b - 1) div b"

definition ceil_div2 :: "WorkDim2 \<Rightarrow> WorkDim2 \<Rightarrow> WorkDim2" where
  "ceil_div2 a b = (ceil_div (fst a) (fst b), ceil_div (snd a) (snd b))"

definition ceil_div3 :: "WorkDim3 \<Rightarrow> WorkDim3 \<Rightarrow> WorkDim3" where
  "ceil_div3 a b =
     (ceil_div (fst a) (fst b),
      ceil_div (fst (snd a)) (fst (snd b)),
      ceil_div (snd (snd a)) (snd (snd b)))"

text \<open>All index vectors below an extent, per dimension count.\<close>

definition grid1 :: "WorkDim1 \<Rightarrow> WorkDim1 list" where
  "grid1 n = [0..<n]"

definition grid2 :: "WorkDim2 \<Rightarrow> WorkDim2 list" where
  "grid2 n = List.product [0..<fst n] [0..<snd n]"

definition grid3 :: "WorkDim3 \<Rightarrow> WorkDim3 list" where
  "grid3 n = List.product [0..<fst n] (List.product [0..<fst (snd n)] [0..<snd (snd n)])"

text \<open>
  The threads of a launch \<^verbatim>\<open><<<numGroups, groupSize>>>\<close>: every thread of every block,
  each once. The threads of a real launch run concurrently; the model runs them one after
  the other in this order.
\<close>

definition mk_thread :: "'d \<Rightarrow> 'd \<times> 'd \<Rightarrow> 'd cuda_thread" where
  "mk_thread gs bt = \<lparr>blockIdx = fst bt, blockDim = gs, threadIdx = snd bt\<rparr>"

definition cuda_threads :: "('d \<Rightarrow> 'd list) \<Rightarrow> 'd \<Rightarrow> 'd \<Rightarrow> 'd cuda_thread list" where
  "cuda_threads grid numGroups groupSize =
     map (mk_thread groupSize) (List.product (grid numGroups) (grid groupSize))"

section \<open>The kernels and their launch (cuda\_device.h)\<close>

text \<open>
  A kernel body is a function from the work item to a change of the memory \<open>'s\<close> the
  kernel works on.
\<close>

definition basicCUDAKernel1 ::
  "WorkDim1 \<Rightarrow> (WorkDim1 WorkItem \<Rightarrow> 's \<Rightarrow> 's) \<Rightarrow> WorkDim1 cuda_thread \<Rightarrow> 's \<Rightarrow> 's" where
  "basicCUDAKernel1 gsz f t s =
     (let it = WorkItem1 gsz t in
      if getId it < getRange it then f it s else s)"

definition basicCUDAKernel2 ::
  "WorkDim2 \<Rightarrow> (WorkDim2 WorkItem \<Rightarrow> 's \<Rightarrow> 's) \<Rightarrow> WorkDim2 cuda_thread \<Rightarrow> 's \<Rightarrow> 's" where
  "basicCUDAKernel2 gsz f t s =
     (let it = WorkItem2 gsz t in
      if getId2_0 it < getRange2_0 it \<and> getId2_1 it < getRange2_1 it then f it s else s)"

definition basicCUDAKernel3 ::
  "WorkDim3 \<Rightarrow> (WorkDim3 WorkItem \<Rightarrow> 's \<Rightarrow> 's) \<Rightarrow> WorkDim3 cuda_thread \<Rightarrow> 's \<Rightarrow> 's" where
  "basicCUDAKernel3 gsz f t s =
     (let it = WorkItem3 gsz t in
      if getId3_0 it < getRange3_0 it \<and> getId3_1 it < getRange3_1 it \<and>
         getId3_2 it < getRange3_2 it
      then f it s else s)"

definition groupCUDAKernel ::
  "('d WorkGroupItem \<Rightarrow> 's \<Rightarrow> 's) \<Rightarrow> 'd cuda_thread \<Rightarrow> 's \<Rightarrow> 's" where
  "groupCUDAKernel f t s = f (WorkGroupItem t) s"

text \<open>
  \<^verbatim>\<open>cudaError_t\<close> belongs to the CUDA runtime. The model keeps the success value, the two
  failures of a dispatch the spec names (invalid launch configuration, out of resources)
  and one constructor for every other code.
\<close>

datatype cudaError_t =
    cudaSuccess
  | cudaErrorInvalidConfiguration
  | cudaErrorMemoryAllocation
  | cudaErrorOther nat

text \<open>
  The CUDA runtime keeps the last error of the host thread. A launch
  \<^verbatim>\<open>kernel<<<numGroups, groupSize>>>(...)\<close> works on that last error and on the memory;
  \<open>verdict\<close> is what the runtime decides about this launch. A launch that it accepts runs
  its threads and leaves the last error as it was, so that an earlier failure nobody has
  read yet stays in place; a launch that it rejects runs no thread, and its failure
  becomes the last error.
\<close>

definition cudaLaunch ::
  "cudaError_t \<Rightarrow> 'd cuda_thread list \<Rightarrow> ('d cuda_thread \<Rightarrow> 's \<Rightarrow> 's) \<Rightarrow> cudaError_t \<times> 's
     \<Rightarrow> cudaError_t \<times> 's" where
  "cudaLaunch verdict threads kern ls =
     (if verdict = cudaSuccess then (fst ls, fold kern threads (snd ls)) else (verdict, snd ls))"

text \<open>
  \<^verbatim>\<open>cudaGetLastError()\<close> of the CUDA runtime: returns the last error and resets it to
  \<open>cudaSuccess\<close>. The result is the value returned and the new last error.
\<close>

definition cudaGetLastError :: "cudaError_t \<Rightarrow> cudaError_t \<times> cudaError_t" where
  "cudaGetLastError lastError = (lastError, cudaSuccess)"

text \<open>\<^verbatim>\<open>cudaGetErrorString\<close> of the CUDA runtime: the message that goes with a status.\<close>

definition cudaGetErrorString :: "cudaError_t \<Rightarrow> string" where
  "cudaGetErrorString e =
     (case e of
        cudaSuccess \<Rightarrow> ''no error''
      | cudaErrorInvalidConfiguration \<Rightarrow> ''invalid configuration argument''
      | cudaErrorMemoryAllocation \<Rightarrow> ''out of memory''
      | cudaErrorOther n \<Rightarrow> ''unknown error'')"

text \<open>
  Modelled from the spec: \<^verbatim>\<open>checkError\<close> (declared in \<^verbatim>\<open>cuda_device.h\<close>, body missing). A
  backend failure is converted into a device-level error of kind \<open>OutOfMemory\<close> (out of
  resources) or \<open>Unknown\<close> (any other failure) and recorded in the error slot of the
  device; it is not thrown. The declaration takes the status alone, and how a failure
  reaches the device is not in the sources; the model passes the slot of the device in
  and returns it. On \<open>cudaSuccess\<close> nothing happens.
\<close>

definition checkError :: "cudaError_t \<Rightarrow> ErrorState \<Rightarrow> ErrorState" where
  "checkError e dev =
     (case e of
        cudaSuccess \<Rightarrow> dev
      | cudaErrorMemoryAllocation \<Rightarrow> setError dev OutOfMemory (cudaGetErrorString e)
      | _ \<Rightarrow> setError dev Unknown (cudaGetErrorString e))"

text \<open>The group-size heuristic of \<^verbatim>\<open>CUDADevice\<close>, one overload per dimension count.\<close>

definition suggestWorkGroupSize1 :: "WorkDim1 \<Rightarrow> WorkDim1" where
  "suggestWorkGroupSize1 gsz = 256"

definition suggestWorkGroupSize2 :: "WorkDim2 \<Rightarrow> WorkDim2" where
  "suggestWorkGroupSize2 gsz = (16, 16)"

definition suggestWorkGroupSize3 :: "WorkDim3 \<Rightarrow> WorkDim3" where
  "suggestWorkGroupSize3 gsz = (1, 16, 16)"

text \<open>
  \<^verbatim>\<open>runKernelAsync(globalSize, f)\<close>, the basic kernel. The state is the last error of the
  CUDA runtime, the error slot of the device and the memory the kernel works on;
  \<open>verdict\<close> is what the runtime decides about the launch. The status handed to
  \<^verbatim>\<open>checkError\<close> is the one \<^verbatim>\<open>cudaGetLastError()\<close> returns after the launch.
\<close>

definition runKernelAsync1 ::
  "cudaError_t \<Rightarrow> WorkDim1 \<Rightarrow> (WorkDim1 WorkItem \<Rightarrow> 's \<Rightarrow> 's)
     \<Rightarrow> cudaError_t \<times> ErrorState \<times> 's \<Rightarrow> cudaError_t \<times> ErrorState \<times> 's" where
  "runKernelAsync1 verdict gsz f st =
     (let groupSize = suggestWorkGroupSize1 gsz;
          numGroups = ceil_div gsz groupSize;
          ls = cudaLaunch verdict (cuda_threads grid1 numGroups groupSize)
                 (basicCUDAKernel1 gsz f) (fst st, snd (snd st));
          el = cudaGetLastError (fst ls)
      in (snd el, checkError (fst el) (fst (snd st)), snd ls))"

definition runKernelAsync2 ::
  "cudaError_t \<Rightarrow> WorkDim2 \<Rightarrow> (WorkDim2 WorkItem \<Rightarrow> 's \<Rightarrow> 's)
     \<Rightarrow> cudaError_t \<times> ErrorState \<times> 's \<Rightarrow> cudaError_t \<times> ErrorState \<times> 's" where
  "runKernelAsync2 verdict gsz f st =
     (let groupSize = suggestWorkGroupSize2 gsz;
          numGroups = ceil_div2 gsz groupSize;
          ls = cudaLaunch verdict (cuda_threads grid2 numGroups groupSize)
                 (basicCUDAKernel2 gsz f) (fst st, snd (snd st));
          el = cudaGetLastError (fst ls)
      in (snd el, checkError (fst el) (fst (snd st)), snd ls))"

definition runKernelAsync3 ::
  "cudaError_t \<Rightarrow> WorkDim3 \<Rightarrow> (WorkDim3 WorkItem \<Rightarrow> 's \<Rightarrow> 's)
     \<Rightarrow> cudaError_t \<times> ErrorState \<times> 's \<Rightarrow> cudaError_t \<times> ErrorState \<times> 's" where
  "runKernelAsync3 verdict gsz f st =
     (let groupSize = suggestWorkGroupSize3 gsz;
          numGroups = ceil_div3 gsz groupSize;
          ls = cudaLaunch verdict (cuda_threads grid3 numGroups groupSize)
                 (basicCUDAKernel3 gsz f) (fst st, snd (snd st));
          el = cudaGetLastError (fst ls)
      in (snd el, checkError (fst el) (fst (snd st)), snd ls))"

text \<open>
  \<^verbatim>\<open>runKernelAsync(numGroups, groupSize, f)\<close>, the work-group kernel; \<open>grid\<close> lists the
  index vectors of the dimension count \<^verbatim>\<open>N\<close> (\<open>grid1\<close>, \<open>grid2\<close> or \<open>grid3\<close>).
\<close>

definition runKernelAsyncGroup ::
  "('d \<Rightarrow> 'd list) \<Rightarrow> cudaError_t \<Rightarrow> 'd \<Rightarrow> 'd \<Rightarrow> ('d WorkGroupItem \<Rightarrow> 's \<Rightarrow> 's)
     \<Rightarrow> cudaError_t \<times> ErrorState \<times> 's \<Rightarrow> cudaError_t \<times> ErrorState \<times> 's" where
  "runKernelAsyncGroup grid verdict numGroups groupSize f st =
     (let ls = cudaLaunch verdict (cuda_threads grid numGroups groupSize)
                 (groupCUDAKernel f) (fst st, snd (snd st));
          el = cudaGetLastError (fst ls)
      in (snd el, checkError (fst el) (fst (snd st)), snd ls))"

text \<open>
  A kernel body that records the coordinate it is invoked with; run from the empty list it
  yields the coordinates a launch visits, one entry per invocation.
\<close>

definition visit :: "'d WorkItem \<Rightarrow> 'd list \<Rightarrow> 'd list" where
  "visit it tr = tr @ [getId it]"

text \<open>
  The coordinates that \<^verbatim>\<open>runKernelAsync(globalSize, f)\<close> visits when the runtime accepts
  the launch, in the order of the model (started with no error pending anywhere).
\<close>

definition visited1 :: "WorkDim1 \<Rightarrow> WorkDim1 list" where
  "visited1 g = snd (snd (runKernelAsync1 cudaSuccess g visit (cudaSuccess, noError, [])))"

definition visited2 :: "WorkDim2 \<Rightarrow> WorkDim2 list" where
  "visited2 g = snd (snd (runKernelAsync2 cudaSuccess g visit (cudaSuccess, noError, [])))"

definition visited3 :: "WorkDim3 \<Rightarrow> WorkDim3 list" where
  "visited3 g = snd (snd (runKernelAsync3 cudaSuccess g visit (cudaSuccess, noError, [])))"

section \<open>The error accessor of the public API (oidn.hpp)\<close>

text \<open>A handle of the C API is a pointer: \<open>None\<close> is \<^verbatim>\<open>nullptr\<close>.\<close>

type_synonym handle = "nat option"

text \<open>
  Modelled from the spec: the state behind \<^verbatim>\<open>oidnGetDeviceError\<close> (of \<^verbatim>\<open>oidn.h\<close>,
  missing). Every device has its own slot, and one more slot answers for the
  null device, so that a caller can learn why the construction of a device failed.
\<close>

record api_state =
  deviceError :: "nat \<Rightarrow> ErrorState"
  globalError :: ErrorState

definition errorSlot :: "api_state \<Rightarrow> handle \<Rightarrow> ErrorState" where
  "errorSlot st h = (case h of None \<Rightarrow> globalError st | Some d \<Rightarrow> deviceError st d)"

definition putErrorSlot :: "api_state \<Rightarrow> handle \<Rightarrow> ErrorState \<Rightarrow> api_state" where
  "putErrorSlot st h slot =
     (case h of
        None \<Rightarrow> st\<lparr>globalError := slot\<rparr>
      | Some d \<Rightarrow> st\<lparr>deviceError := (deviceError st)(d := slot)\<rparr>)"

text \<open>Modelled from the spec: an error of the device \<open>h\<close> (or of a failed construction) is recorded.\<close>

definition recordError :: "api_state \<Rightarrow> handle \<Rightarrow> Error \<Rightarrow> string \<Rightarrow> api_state" where
  "recordError st h c m = putErrorSlot st h (setError (errorSlot st h) c m)"

text \<open>
  Modelled from the spec: \<^verbatim>\<open>oidnGetDeviceError(handle, outMessage)\<close>; the flag says whether
  \<^verbatim>\<open>outMessage\<close> is a non-null pointer, in which case the message is handed out too.
\<close>

definition oidnGetDeviceError ::
  "api_state \<Rightarrow> handle \<Rightarrow> bool \<Rightarrow> (Error \<times> string option) \<times> api_state" where
  "oidnGetDeviceError st h outMessage =
     (let (e, slot') = takeError (errorSlot st h)
      in ((fst e, if outMessage then Some (snd e) else None), putErrorSlot st h slot'))"

text \<open>
  \<^verbatim>\<open>DeviceRef::getError()\<close> and \<^verbatim>\<open>DeviceRef::getError(const char*& outMessage)\<close>, for a
  wrapper whose handle is \<open>h\<close>.
\<close>

definition getError :: "api_state \<Rightarrow> handle \<Rightarrow> Error \<times> api_state" where
  "getError st h = (let (r, st') = oidnGetDeviceError st h False in (fst r, st'))"

definition getErrorMessage ::
  "api_state \<Rightarrow> handle \<Rightarrow> (Error \<times> string option) \<times> api_state" where
  "getErrorMessage st h = oidnGetDeviceError st h True"

text \<open>A state of the API in which no error is pending.\<close>

definition api0 :: api_state where
  "api0 = \<lparr>deviceError = (\<lambda>d. noError), globalError = noError\<rparr>"

section \<open>The reference-counted handle wrappers (oidn.hpp)\<close>

text \<open>
  \<^verbatim>\<open>BufferRef\<close>, \<^verbatim>\<open>FilterRef\<close> and \<^verbatim>\<open>DeviceRef\<close> have the same constructors, assignments
  and destructor, up to the retain and release function of their kind of handle. The
  operations below take the kind as a parameter.
\<close>

datatype RefKind = BufferRef | FilterRef | DeviceRef

text \<open>
  A call of \<^verbatim>\<open>oidnRetainBuffer\<close>, \<^verbatim>\<open>oidnRetainFilter\<close> or \<^verbatim>\<open>oidnRetainDevice\<close>
  (\<open>Retain\<close> with the kind), or of the matching release function, on a non-null handle.
\<close>

datatype api_call = Retain RefKind nat | Release RefKind nat

text \<open>
  Modelled from the spec: the counter behind the retain and release functions (of
  \<^verbatim>\<open>oidn.h\<close>, missing). \<open>refCount\<close> is the shared lifetime of each resource, and a
  resource is released (it joins \<open>destroyed\<close>) when a release takes its last reference.

  The wrappers are objects with an address, since copy assignment compares \<^verbatim>\<open>&other\<close>
  with \<^verbatim>\<open>this\<close>: \<open>objs\<close> maps the address of every live wrapper to its \<^verbatim>\<open>handle\<close> field.
  \<open>calls\<close> is the sequence of retain and release calls made so far.
\<close>

record world =
  objs :: "nat \<rightharpoonup> handle"
  calls :: "api_call list"
  refCount :: "nat \<Rightarrow> nat"
  destroyed :: "nat set"

text \<open>
  Modelled from the spec: \<^verbatim>\<open>oidnRetainBuffer\<close>, \<^verbatim>\<open>oidnRetainFilter\<close>, \<^verbatim>\<open>oidnRetainDevice\<close>
  and the three release functions (missing). A retain adds a reference; a release takes
  one away, and releases the resource with the last one. Releasing a resource that has
  no reference left is outside the contract of the API; the counter of the model then
  stays at zero, and the theorems below only release resources that a live wrapper owns.
\<close>

definition oidnRetain :: "RefKind \<Rightarrow> nat \<Rightarrow> world \<Rightarrow> world" where
  "oidnRetain k r w =
     w\<lparr>calls := calls w @ [Retain k r], refCount := (refCount w)(r := Suc (refCount w r))\<rparr>"

definition oidnRelease :: "RefKind \<Rightarrow> nat \<Rightarrow> world \<Rightarrow> world" where
  "oidnRelease k r w =
     w\<lparr>calls := calls w @ [Release k r],
       refCount := (refCount w)(r := refCount w r - 1),
       destroyed := (if refCount w r \<le> 1 then insert r (destroyed w) else destroyed w)\<rparr>"

text \<open>\<^verbatim>\<open>if (handle) oidnRetain...(handle);\<close> and \<^verbatim>\<open>if (handle) oidnRelease...(handle);\<close>\<close>

definition retainIf :: "RefKind \<Rightarrow> handle \<Rightarrow> world \<Rightarrow> world" where
  "retainIf k h w = (case h of None \<Rightarrow> w | Some r \<Rightarrow> oidnRetain k r w)"

definition releaseIf :: "RefKind \<Rightarrow> handle \<Rightarrow> world \<Rightarrow> world" where
  "releaseIf k h w = (case h of None \<Rightarrow> w | Some r \<Rightarrow> oidnRelease k r w)"

text \<open>
  The operations return \<open>None\<close> when they read a wrapper that is not live (undefined
  behaviour in C++). A constructor creates the object at \<open>this\<close>.

  \<^verbatim>\<open>Ref(handle)\<close>: takes the handle over, without a retain.
\<close>

definition Ref_ctor :: "RefKind \<Rightarrow> nat \<Rightarrow> handle \<Rightarrow> world \<Rightarrow> world option" where
  "Ref_ctor k this h w = Some (w\<lparr>objs := (objs w)(this \<mapsto> h)\<rparr>)"

text \<open>\<^verbatim>\<open>Ref(const Ref& other)\<close>\<close>

definition Ref_copy_ctor :: "RefKind \<Rightarrow> nat \<Rightarrow> nat \<Rightarrow> world \<Rightarrow> world option" where
  "Ref_copy_ctor k this other w =
     (case objs w other of
        None \<Rightarrow> None
      | Some h \<Rightarrow> Some (retainIf k h (w\<lparr>objs := (objs w)(this \<mapsto> h)\<rparr>)))"

text \<open>\<^verbatim>\<open>Ref(Ref&& other)\<close>\<close>

definition Ref_move_ctor :: "RefKind \<Rightarrow> nat \<Rightarrow> nat \<Rightarrow> world \<Rightarrow> world option" where
  "Ref_move_ctor k this other w =
     (case objs w other of
        None \<Rightarrow> None
      | Some h \<Rightarrow> Some (w\<lparr>objs := (objs w)(this \<mapsto> h, other \<mapsto> None)\<rparr>))"

text \<open>\<^verbatim>\<open>Ref& operator =(const Ref& other)\<close>\<close>

definition Ref_copy_assign :: "RefKind \<Rightarrow> nat \<Rightarrow> nat \<Rightarrow> world \<Rightarrow> world option" where
  "Ref_copy_assign k this other w =
     (case (objs w this, objs w other) of
        (Some h, Some oh) \<Rightarrow>
          if other \<noteq> this then
            (let w1 = retainIf k oh w;
                 w2 = releaseIf k h w1
             in Some (w2\<lparr>objs := (objs w2)(this \<mapsto> oh)\<rparr>))
          else Some w
      | _ \<Rightarrow> None)"

text \<open>\<^verbatim>\<open>Ref& operator =(Ref&& other)\<close>: swaps the two handles.\<close>

definition Ref_move_assign :: "RefKind \<Rightarrow> nat \<Rightarrow> nat \<Rightarrow> world \<Rightarrow> world option" where
  "Ref_move_assign k this other w =
     (case (objs w this, objs w other) of
        (Some h, Some oh) \<Rightarrow> Some (w\<lparr>objs := (objs w)(this \<mapsto> oh, other \<mapsto> h)\<rparr>)
      | _ \<Rightarrow> None)"

text \<open>\<^verbatim>\<open>Ref& operator =(OIDN... other)\<close>, assignment of a raw handle.\<close>

definition Ref_assign_handle :: "RefKind \<Rightarrow> nat \<Rightarrow> handle \<Rightarrow> world \<Rightarrow> world option" where
  "Ref_assign_handle k this other w =
     (case objs w this of
        None \<Rightarrow> None
      | Some h \<Rightarrow>
          (let w1 = retainIf k other w;
               w2 = releaseIf k h w1
           in Some (w2\<lparr>objs := (objs w2)(this \<mapsto> other)\<rparr>)))"

text \<open>\<^verbatim>\<open>~Ref()\<close>: after the destructor the object is no longer live.\<close>

definition Ref_dtor :: "RefKind \<Rightarrow> nat \<Rightarrow> world \<Rightarrow> world option" where
  "Ref_dtor k this w =
     (case objs w this of
        None \<Rightarrow> None
      | Some h \<Rightarrow> (let w1 = releaseIf k h w in Some (w1\<lparr>objs := (objs w1)(this := None)\<rparr>)))"

text \<open>
  The wrappers that own the resource \<open>r\<close>, and the balance of a world: the reference count
  of every resource is the number of live wrappers that hold it.
\<close>

definition owners :: "world \<Rightarrow> nat \<Rightarrow> nat set" where
  "owners w r = {a. objs w a = Some (Some r)}"

definition balanced :: "world \<Rightarrow> bool" where
  "balanced w \<longleftrightarrow> finite (dom (objs w)) \<and> (\<forall>r. refCount w r = card (owners w r))"

text \<open>
  A world of two live wrappers: the one at address 0 holds the resource 7, the one at
  address 2 holds the resource 8, and each resource has one reference.
\<close>

definition world0 :: world where
  "world0 = \<lparr>objs = [0 \<mapsto> Some 7, 2 \<mapsto> Some 8], calls = [],
              refCount = (\<lambda>r. 0)(7 := 1, 8 := 1), destroyed = {}\<rparr>"

section \<open>The guard of the basic kernel\<close>

text \<open>
  Running the basic kernel over any list of threads is running the body over the work
  items of those threads that pass the guard, in the same order.
\<close>

lemma fold_basicCUDAKernel1:
  "fold (basicCUDAKernel1 g f) ts s =
   fold f (filter (\<lambda>it. getId it < g) (map (WorkItem1 g) ts)) s"
  by (induction ts arbitrary: s)
     (simp_all add: basicCUDAKernel1_def Let_def getRange_def WorkItem1_def)

lemma fold_basicCUDAKernel2:
  "fold (basicCUDAKernel2 g f) ts s =
   fold f (filter (\<lambda>it. getId2_0 it < fst g \<and> getId2_1 it < snd g) (map (WorkItem2 g) ts)) s"
  by (induction ts arbitrary: s)
     (simp_all add: basicCUDAKernel2_def Let_def getRange2_0_def getRange2_1_def WorkItem2_def)

lemma fold_basicCUDAKernel3:
  "fold (basicCUDAKernel3 g f) ts s =
   fold f (filter (\<lambda>it. getId3_0 it < fst g \<and> getId3_1 it < fst (snd g) \<and>
                          getId3_2 it < snd (snd g)) (map (WorkItem3 g) ts)) s"
  by (induction ts arbitrary: s)
     (simp_all add: basicCUDAKernel3_def Let_def getRange3_0_def getRange3_1_def
        getRange3_2_def WorkItem3_def)

text \<open>
  Claim C1. For a 1D, 2D or 3D global extent and every kernel body, a thread of the basic
  kernel calls the body exactly when the coordinate of its work item is below the extent
  in every dimension, and leaves the memory as it is otherwise. So over the threads of any
  launch the body is invoked on the work items in range and on no other.
\<close>

theorem basicCUDAKernel_guard:
  "basicCUDAKernel1 g1 f1 t1 s =
     (if getId (WorkItem1 g1 t1) < g1 then f1 (WorkItem1 g1 t1) s else s) \<and>
   basicCUDAKernel2 g2 f2 t2 s =
     (if getId2_0 (WorkItem2 g2 t2) < fst g2 \<and> getId2_1 (WorkItem2 g2 t2) < snd g2
      then f2 (WorkItem2 g2 t2) s else s) \<and>
   basicCUDAKernel3 g3 f3 t3 s =
     (if getId3_0 (WorkItem3 g3 t3) < fst g3 \<and> getId3_1 (WorkItem3 g3 t3) < fst (snd g3) \<and>
         getId3_2 (WorkItem3 g3 t3) < snd (snd g3)
      then f3 (WorkItem3 g3 t3) s else s) \<and>
   fold (basicCUDAKernel1 g1 f1) ts1 s =
     fold f1 (filter (\<lambda>it. getId it < g1) (map (WorkItem1 g1) ts1)) s \<and>
   fold (basicCUDAKernel2 g2 f2) ts2 s =
     fold f2 (filter (\<lambda>it. getId2_0 it < fst g2 \<and> getId2_1 it < snd g2)
                (map (WorkItem2 g2) ts2)) s \<and>
   fold (basicCUDAKernel3 g3 f3) ts3 s =
     fold f3 (filter (\<lambda>it. getId3_0 it < fst g3 \<and> getId3_1 it < fst (snd g3) \<and>
                            getId3_2 it < snd (snd g3))
                (map (WorkItem3 g3) ts3)) s"
proof -
  have k1: "basicCUDAKernel1 g1 f1 t1 s =
     (if getId (WorkItem1 g1 t1) < g1 then f1 (WorkItem1 g1 t1) s else s)"
    by (simp add: basicCUDAKernel1_def Let_def getRange_def WorkItem1_def)
  have k2: "basicCUDAKernel2 g2 f2 t2 s =
     (if getId2_0 (WorkItem2 g2 t2) < fst g2 \<and> getId2_1 (WorkItem2 g2 t2) < snd g2
      then f2 (WorkItem2 g2 t2) s else s)"
    by (simp add: basicCUDAKernel2_def Let_def getRange2_0_def getRange2_1_def WorkItem2_def)
  have k3: "basicCUDAKernel3 g3 f3 t3 s =
     (if getId3_0 (WorkItem3 g3 t3) < fst g3 \<and> getId3_1 (WorkItem3 g3 t3) < fst (snd g3) \<and>
         getId3_2 (WorkItem3 g3 t3) < snd (snd g3)
      then f3 (WorkItem3 g3 t3) s else s)"
    by (simp add: basicCUDAKernel3_def Let_def getRange3_0_def getRange3_1_def
          getRange3_2_def WorkItem3_def)
  show ?thesis
    using k1 k2 k3 fold_basicCUDAKernel1 [of g1 f1 ts1 s] fold_basicCUDAKernel2 [of g2 f2 ts2 s]
      fold_basicCUDAKernel3 [of g3 f3 ts3 s]
    by blast
qed

section \<open>The group-size heuristic\<close>

text \<open>
  Claim C7. The heuristic answers 256 for a 1D extent, 16 x 16 for a 2D extent and
  1 x 16 x 16 for a 3D extent, whatever the extent is, and \<^verbatim>\<open>runKernelAsync(globalSize, f)\<close>
  launches the basic kernel with blocks of that size, on a grid of the ceiling quotient,
  then hands the last error of the runtime to \<^verbatim>\<open>checkError\<close> and leaves it reset.
\<close>

theorem suggestWorkGroupSize_fixed:
  "suggestWorkGroupSize1 g1 = 256 \<and>
   suggestWorkGroupSize2 g2 = (16, 16) \<and>
   suggestWorkGroupSize3 g3 = (1, 16, 16) \<and>
   runKernelAsync1 verdict g1 f1 st =
     (cudaSuccess,
      checkError
        (fst (cudaLaunch verdict (cuda_threads grid1 (ceil_div g1 256) 256)
                (basicCUDAKernel1 g1 f1) (fst st, snd (snd st))))
        (fst (snd st)),
      snd (cudaLaunch verdict (cuda_threads grid1 (ceil_div g1 256) 256)
             (basicCUDAKernel1 g1 f1) (fst st, snd (snd st)))) \<and>
   runKernelAsync2 verdict g2 f2 st =
     (cudaSuccess,
      checkError
        (fst (cudaLaunch verdict (cuda_threads grid2 (ceil_div2 g2 (16, 16)) (16, 16))
                (basicCUDAKernel2 g2 f2) (fst st, snd (snd st))))
        (fst (snd st)),
      snd (cudaLaunch verdict (cuda_threads grid2 (ceil_div2 g2 (16, 16)) (16, 16))
             (basicCUDAKernel2 g2 f2) (fst st, snd (snd st)))) \<and>
   runKernelAsync3 verdict g3 f3 st =
     (cudaSuccess,
      checkError
        (fst (cudaLaunch verdict (cuda_threads grid3 (ceil_div3 g3 (1, 16, 16)) (1, 16, 16))
                (basicCUDAKernel3 g3 f3) (fst st, snd (snd st))))
        (fst (snd st)),
      snd (cudaLaunch verdict (cuda_threads grid3 (ceil_div3 g3 (1, 16, 16)) (1, 16, 16))
             (basicCUDAKernel3 g3 f3) (fst st, snd (snd st))))"
  by (simp add: suggestWorkGroupSize1_def suggestWorkGroupSize2_def suggestWorkGroupSize3_def
        runKernelAsync1_def runKernelAsync2_def runKernelAsync3_def cudaGetLastError_def Let_def)

section \<open>The work-group kernel\<close>

lemma distinct_cuda_threads:
  "distinct (grid numGroups) \<Longrightarrow> distinct (grid groupSize) \<Longrightarrow>
   distinct (cuda_threads grid numGroups groupSize)"
  unfolding cuda_threads_def
  by (rule iffD2 [OF distinct_map])
     (auto simp: distinct_product inj_on_def mk_thread_def prod_eq_iff)

lemma distinct_grid: "distinct (grid1 n1)" "distinct (grid2 n2)" "distinct (grid3 n3)"
  by (simp_all add: grid1_def grid2_def grid3_def distinct_product)

lemma length_cuda_threads:
  "length (cuda_threads grid numGroups groupSize) =
   length (grid numGroups) * length (grid groupSize)"
  by (simp add: cuda_threads_def)

lemma length_grid:
  "length (grid1 n1) = n1"
  "length (grid2 n2) = fst n2 * snd n2"
  "length (grid3 n3) = fst n3 * (fst (snd n3) * snd (snd n3))"
  by (simp_all add: grid1_def grid2_def grid3_def)

text \<open>
  Claim C9. The work-group kernel calls the body in every thread, with no test of the
  coordinate: a launch that the runtime accepts runs the body once for each thread of
  the \<open>numGroups\<close> times \<open>groupSize\<close> threads, which are pairwise different, whether or
  not an earlier failure is still unread in the runtime.
\<close>

theorem groupCUDAKernel_unguarded:
  "groupCUDAKernel f t s = f (WorkGroupItem t) s \<and>
   runKernelAsyncGroup grid cudaSuccess numGroups groupSize f (cudaSuccess, dev, s) =
     (cudaSuccess, dev, fold f (map WorkGroupItem (cuda_threads grid numGroups groupSize)) s) \<and>
   runKernelAsyncGroup grid cudaSuccess numGroups groupSize f (lastError, dev, s) =
     (cudaSuccess, checkError lastError dev,
      fold f (map WorkGroupItem (cuda_threads grid numGroups groupSize)) s) \<and>
   length (cuda_threads grid1 n1 s1) = n1 * s1 \<and>
   distinct (cuda_threads grid1 n1 s1) \<and>
   length (cuda_threads grid2 n2 s2) = (fst n2 * snd n2) * (fst s2 * snd s2) \<and>
   distinct (cuda_threads grid2 n2 s2) \<and>
   length (cuda_threads grid3 n3 s3) =
     (fst n3 * (fst (snd n3) * snd (snd n3))) * (fst s3 * (fst (snd s3) * snd (snd s3))) \<and>
   distinct (cuda_threads grid3 n3 s3)"
proof -
  have "fold (groupCUDAKernel f) ts s = fold f (map WorkGroupItem ts) s" for ts
    by (induction ts arbitrary: s) (simp_all add: groupCUDAKernel_def)
  then have "runKernelAsyncGroup grid cudaSuccess numGroups groupSize f (e, dev, s) =
     (cudaSuccess, checkError e dev,
      fold f (map WorkGroupItem (cuda_threads grid numGroups groupSize)) s)" for e
    by (simp add: runKernelAsyncGroup_def cudaLaunch_def cudaGetLastError_def Let_def)
  then show ?thesis
    by (simp add: groupCUDAKernel_def length_cuda_threads length_grid distinct_cuda_threads
          distinct_grid checkError_def)
qed

section \<open>The partition of the basic kernel covers the extent\<close>

text \<open>
  A coordinate splits in one way only into a group index and an index in the group, and
  the ceiling quotient leaves no coordinate of the extent without a group.
\<close>

lemma split_index_unique:
  fixes b t b' t' n :: nat
  assumes "t < n" "t' < n" "b * n + t = b' * n + t'"
  shows "b = b' \<and> t = t'"
proof -
  have "t = (b * n + t) mod n" using assms(1) by simp
  also have "\<dots> = (b' * n + t') mod n" by (simp only: assms(3))
  also have "\<dots> = t'" using assms(2) by simp
  finally have tt: "t = t'" .
  then have "b * n = b' * n" using assms(3) by simp
  moreover have "0 < n" using assms(1) by simp
  ultimately have "b = b'" by simp
  then show ?thesis using tt by simp
qed

lemma ceil_div_succ: "0 < a \<Longrightarrow> 0 < b \<Longrightarrow> ceil_div a b = (a - 1) div b + 1"
proof -
  assume a: "0 < a" and b: "0 < b"
  have "ceil_div a b = ((a - 1) + b) div b" unfolding ceil_div_def using a by (intro arg_cong2 [where f = "(div)"]) auto
  also have "\<dots> = (a - 1) div b + 1" using b by (simp only: div_add_self2)
  finally show ?thesis .
qed

lemma ceil_div_index: "0 < b \<Longrightarrow> i < a \<Longrightarrow> i div b < ceil_div a b"
proof -
  assume b: "0 < b" and i: "i < a"
  have "i \<le> a - 1" using i by simp
  then have "i div b \<le> (a - 1) div b" by (rule div_le_mono)
  moreover have "ceil_div a b = (a - 1) div b + 1" using ceil_div_succ [of a b] b i by simp
  ultimately show ?thesis by simp
qed

lemma ceil_div_covers: "0 < b \<Longrightarrow> a \<le> ceil_div a b * b"
proof (cases "a = 0")
  case True then show ?thesis by simp
next
  case False
  assume b: "0 < b"
  have "a - 1 < b * ((a - 1) div b + 1)"
    using b dividend_less_times_div [of b "a - 1"] by simp
  moreover have "ceil_div a b = (a - 1) div b + 1" using ceil_div_succ [of a b] b False by simp
  ultimately have "a - 1 < ceil_div a b * b" by (simp only: mult.commute)
  then show ?thesis by simp
qed

lemma fold_visit: "fold visit its tr = tr @ map getId its"
  by (induction its arbitrary: tr) (simp_all add: visit_def)

lemma split_index_exists:
  "0 < gs \<Longrightarrow> i < g \<Longrightarrow> \<exists>b t. b < ceil_div g gs \<and> t < gs \<and> b * gs + t = i"
  by (rule exI [of _ "i div gs"], rule exI [of _ "i mod gs"]) (simp add: ceil_div_index)

lemma set_cuda_threads:
  "set (cuda_threads grid n gs) = mk_thread gs ` (set (grid n) \<times> set (grid gs))"
  by (simp add: cuda_threads_def)

lemma inj_on_ids1:
  "inj_on (\<lambda>t. getId (WorkItem1 g t)) (set (cuda_threads grid1 n gs))"
  unfolding set_cuda_threads inj_on_def
  by (auto simp: mk_thread_def grid1_def WorkItem1_def getId_def dest: split_index_unique)

lemma inj_on_ids2:
  "inj_on (\<lambda>t. getId (WorkItem2 g t)) (set (cuda_threads grid2 n gs))"
  unfolding set_cuda_threads inj_on_def
  by (auto simp: mk_thread_def grid2_def WorkItem2_def getId_def dest: split_index_unique)

lemma inj_on_ids3:
  "inj_on (\<lambda>t. getId (WorkItem3 g t)) (set (cuda_threads grid3 n gs))"
  unfolding set_cuda_threads inj_on_def
  by (auto simp: mk_thread_def grid3_def WorkItem3_def getId_def dest: split_index_unique)

lemma visited1_eq:
  "visited1 g = map getId (filter (\<lambda>it. getId it < g)
     (map (WorkItem1 g) (cuda_threads grid1 (ceil_div g 256) 256)))"
  by (simp add: visited1_def runKernelAsync1_def Let_def cudaLaunch_def cudaGetLastError_def
        suggestWorkGroupSize1_def fold_basicCUDAKernel1 fold_visit)

lemma visited2_eq:
  "visited2 g = map getId (filter (\<lambda>it. getId2_0 it < fst g \<and> getId2_1 it < snd g)
     (map (WorkItem2 g) (cuda_threads grid2 (ceil_div2 g (16, 16)) (16, 16))))"
  by (simp add: visited2_def runKernelAsync2_def Let_def cudaLaunch_def cudaGetLastError_def
        suggestWorkGroupSize2_def fold_basicCUDAKernel2 fold_visit)

lemma visited3_eq:
  "visited3 g = map getId (filter (\<lambda>it. getId3_0 it < fst g \<and> getId3_1 it < fst (snd g) \<and>
                          getId3_2 it < snd (snd g))
     (map (WorkItem3 g) (cuda_threads grid3 (ceil_div3 g (1, 16, 16)) (1, 16, 16))))"
  by (simp add: visited3_def runKernelAsync3_def Let_def cudaLaunch_def cudaGetLastError_def
        suggestWorkGroupSize3_def fold_basicCUDAKernel3 fold_visit)

lemma distinct_ids:
  "distinct ts \<Longrightarrow> inj_on (\<lambda>t. getId (w t)) (set ts) \<Longrightarrow>
   distinct (map getId (filter P (map w ts)))"
  by (rule distinct_map_filter) (simp add: distinct_map comp_def)

lemma distinct_visited1: "distinct (visited1 g)"
  unfolding visited1_eq
  by (rule distinct_ids) (simp_all add: distinct_cuda_threads distinct_grid inj_on_ids1)

lemma distinct_visited2: "distinct (visited2 g)"
  unfolding visited2_eq
  by (rule distinct_ids) (simp_all add: distinct_cuda_threads distinct_grid inj_on_ids2)

lemma distinct_visited3: "distinct (visited3 g)"
  unfolding visited3_eq
  by (rule distinct_ids) (simp_all add: distinct_cuda_threads distinct_grid inj_on_ids3)

lemma set_visited1: "set (visited1 g) = {0..<g}"
proof (rule set_eqI)
  fix i
  show "i \<in> set (visited1 g) \<longleftrightarrow> i \<in> {0..<g}"
  proof
    assume "i \<in> set (visited1 g)"
    then show "i \<in> {0..<g}" by (auto simp: visited1_eq)
  next
    assume "i \<in> {0..<g}"
    then have "i < g" by simp
    then obtain b t where bt: "b < ceil_div g 256" "t < 256" "b * 256 + t = i"
      using split_index_exists [of 256 i g] by auto
    let ?t = "mk_thread 256 (b, t)"
    have "?t \<in> set (cuda_threads grid1 (ceil_div g 256) 256)"
      using bt by (simp add: set_cuda_threads grid1_def)
    moreover have "getId (WorkItem1 g ?t) = i"
      using bt by (simp add: WorkItem1_def getId_def mk_thread_def)
    ultimately show "i \<in> set (visited1 g)"
      using \<open>i < g\<close> unfolding visited1_eq by force
  qed
qed


lemma set_visited2: "set (visited2 g) = {0..<fst g} \<times> {0..<snd g}"
proof (rule set_eqI)
  fix ij :: "nat \<times> nat"
  obtain i j where ij: "ij = (i, j)" by (cases ij)
  show "ij \<in> set (visited2 g) \<longleftrightarrow> ij \<in> {0..<fst g} \<times> {0..<snd g}"
  proof
    assume "ij \<in> set (visited2 g)"
    then show "ij \<in> {0..<fst g} \<times> {0..<snd g}"
      by (auto simp: visited2_eq getId_def getId2_0_def getId2_1_def mem_Times_iff)
  next
    assume "ij \<in> {0..<fst g} \<times> {0..<snd g}"
    then have lt: "i < fst g" "j < snd g" using ij by simp_all
    obtain b0 t0 where bt0: "b0 < ceil_div (fst g) 16" "t0 < 16" "b0 * 16 + t0 = i"
      using split_index_exists [of 16 i "fst g"] lt by auto
    obtain b1 t1 where bt1: "b1 < ceil_div (snd g) 16" "t1 < 16" "b1 * 16 + t1 = j"
      using split_index_exists [of 16 j "snd g"] lt by auto
    let ?t = "mk_thread (16, 16) ((b0, b1), (t0, t1))"
    have "?t \<in> set (cuda_threads grid2 (ceil_div2 g (16, 16)) (16, 16))"
      using bt0 bt1 by (simp add: set_cuda_threads grid2_def ceil_div2_def)
    moreover have "getId (WorkItem2 g ?t) = (i, j)"
      using bt0 bt1 by (simp add: WorkItem2_def getId_def mk_thread_def)
    moreover have "getId2_0 (WorkItem2 g ?t) < fst g \<and> getId2_1 (WorkItem2 g ?t) < snd g"
      using bt0 bt1 lt by (simp add: WorkItem2_def getId2_0_def getId2_1_def mk_thread_def)
    ultimately show "ij \<in> set (visited2 g)"
      unfolding visited2_eq ij by force
  qed
qed

lemma set_visited3:
  "set (visited3 g) = {0..<fst g} \<times> {0..<fst (snd g)} \<times> {0..<snd (snd g)}"
proof (rule set_eqI)
  fix ijk :: "nat \<times> nat \<times> nat"
  obtain i j k where ijk: "ijk = (i, j, k)" by (cases ijk)
  show "ijk \<in> set (visited3 g) \<longleftrightarrow>
        ijk \<in> {0..<fst g} \<times> {0..<fst (snd g)} \<times> {0..<snd (snd g)}"
  proof
    assume "ijk \<in> set (visited3 g)"
    then show "ijk \<in> {0..<fst g} \<times> {0..<fst (snd g)} \<times> {0..<snd (snd g)}"
      by (auto simp: visited3_eq getId_def getId3_0_def getId3_1_def getId3_2_def
            mem_Times_iff)
  next
    assume "ijk \<in> {0..<fst g} \<times> {0..<fst (snd g)} \<times> {0..<snd (snd g)}"
    then have lt: "i < fst g" "j < fst (snd g)" "k < snd (snd g)" using ijk by simp_all
    obtain b0 t0 where bt0: "b0 < ceil_div (fst g) 1" "t0 < 1" "b0 * 1 + t0 = i"
      using split_index_exists [of 1 i "fst g"] lt by auto
    obtain b1 t1 where bt1: "b1 < ceil_div (fst (snd g)) 16" "t1 < 16" "b1 * 16 + t1 = j"
      using split_index_exists [of 16 j "fst (snd g)"] lt by auto
    obtain b2 t2 where bt2: "b2 < ceil_div (snd (snd g)) 16" "t2 < 16" "b2 * 16 + t2 = k"
      using split_index_exists [of 16 k "snd (snd g)"] lt by auto
    let ?t = "mk_thread (1, 16, 16) ((b0, b1, b2), (t0, t1, t2))"
    have "?t \<in> set (cuda_threads grid3 (ceil_div3 g (1, 16, 16)) (1, 16, 16))"
      using bt0 bt1 bt2 by (simp add: set_cuda_threads grid3_def ceil_div3_def)
    moreover have "getId (WorkItem3 g ?t) = (i, j, k)"
      using bt0 bt1 bt2 by (simp add: WorkItem3_def getId_def mk_thread_def)
    moreover have "getId3_0 (WorkItem3 g ?t) < fst g \<and> getId3_1 (WorkItem3 g ?t) < fst (snd g)
        \<and> getId3_2 (WorkItem3 g ?t) < snd (snd g)"
      using bt0 bt1 bt2 lt
      by (simp add: WorkItem3_def getId3_0_def getId3_1_def getId3_2_def mk_thread_def)
    ultimately show "ijk \<in> set (visited3 g)"
      unfolding visited3_eq ijk by force
  qed
qed

lemma rebuild_items:
  "(\<And>t. globalSize (w t) = g) \<Longrightarrow>
   map (\<lambda>i. \<lparr>globalID = i, globalSize = g\<rparr>) (map getId (filter P (map w ts))) =
   filter P (map w ts)"
  by (induction ts) (auto simp: getId_def)

lemma run1_eq:
  "runKernelAsync1 cudaSuccess g f (lastError, dev, s) =
   (cudaSuccess, checkError lastError dev,
    fold f (map (\<lambda>i. \<lparr>globalID = i, globalSize = g\<rparr>) (visited1 g)) s)"
  unfolding visited1_eq
  by (subst rebuild_items)
     (simp_all add: WorkItem1_def runKernelAsync1_def Let_def cudaLaunch_def
        cudaGetLastError_def suggestWorkGroupSize1_def fold_basicCUDAKernel1)

lemma run2_eq:
  "runKernelAsync2 cudaSuccess g f (lastError, dev, s) =
   (cudaSuccess, checkError lastError dev,
    fold f (map (\<lambda>i. \<lparr>globalID = i, globalSize = g\<rparr>) (visited2 g)) s)"
  unfolding visited2_eq
  by (subst rebuild_items)
     (simp_all add: WorkItem2_def runKernelAsync2_def Let_def cudaLaunch_def
        cudaGetLastError_def suggestWorkGroupSize2_def fold_basicCUDAKernel2)

lemma run3_eq:
  "runKernelAsync3 cudaSuccess g f (lastError, dev, s) =
   (cudaSuccess, checkError lastError dev,
    fold f (map (\<lambda>i. \<lparr>globalID = i, globalSize = g\<rparr>) (visited3 g)) s)"
  unfolding visited3_eq
  by (subst rebuild_items)
     (simp_all add: WorkItem3_def runKernelAsync3_def Let_def cudaLaunch_def
        cudaGetLastError_def suggestWorkGroupSize3_def fold_basicCUDAKernel3)

lemma ceil_div_one: "ceil_div a (Suc 0) = a"
  by (simp add: ceil_div_def)

lemma partition_covers:
  "g1 \<le> ceil_div g1 (suggestWorkGroupSize1 g1) * suggestWorkGroupSize1 g1"
  "fst g2 \<le> fst (ceil_div2 g2 (suggestWorkGroupSize2 g2)) * fst (suggestWorkGroupSize2 g2)"
  "snd g2 \<le> snd (ceil_div2 g2 (suggestWorkGroupSize2 g2)) * snd (suggestWorkGroupSize2 g2)"
  "fst g3 \<le> fst (ceil_div3 g3 (suggestWorkGroupSize3 g3)) * fst (suggestWorkGroupSize3 g3)"
  "fst (snd g3) \<le> fst (snd (ceil_div3 g3 (suggestWorkGroupSize3 g3))) *
                    fst (snd (suggestWorkGroupSize3 g3))"
  "snd (snd g3) \<le> snd (snd (ceil_div3 g3 (suggestWorkGroupSize3 g3))) *
                    snd (snd (suggestWorkGroupSize3 g3))"
  by (simp_all add: suggestWorkGroupSize1_def suggestWorkGroupSize2_def
        suggestWorkGroupSize3_def ceil_div2_def ceil_div3_def ceil_div_covers ceil_div_one)

text \<open>
  Claim C2. With the group size of the heuristic and the grid of the ceiling quotient, the
  threads launched cover the extent in every dimension, and the launch visits every
  coordinate below the extent exactly once and no other: the list of visited coordinates
  has no duplicate, its elements are the coordinates below the extent, and running any
  body is running it once on each of them. An earlier failure still unread in the runtime
  changes nothing of this: the threads run all the same, and the stale status is what
  \<^verbatim>\<open>checkError\<close> receives.
\<close>

theorem runKernelAsync_visits_extent_once:
  "g1 \<le> ceil_div g1 (suggestWorkGroupSize1 g1) * suggestWorkGroupSize1 g1 \<and>
   fst g2 \<le> fst (ceil_div2 g2 (suggestWorkGroupSize2 g2)) * fst (suggestWorkGroupSize2 g2) \<and>
   snd g2 \<le> snd (ceil_div2 g2 (suggestWorkGroupSize2 g2)) * snd (suggestWorkGroupSize2 g2) \<and>
   fst g3 \<le> fst (ceil_div3 g3 (suggestWorkGroupSize3 g3)) * fst (suggestWorkGroupSize3 g3) \<and>
   fst (snd g3) \<le> fst (snd (ceil_div3 g3 (suggestWorkGroupSize3 g3))) *
                     fst (snd (suggestWorkGroupSize3 g3)) \<and>
   snd (snd g3) \<le> snd (snd (ceil_div3 g3 (suggestWorkGroupSize3 g3))) *
                     snd (snd (suggestWorkGroupSize3 g3)) \<and>
   distinct (visited1 g1) \<and> set (visited1 g1) = {0..<g1} \<and>
   distinct (visited2 g2) \<and> set (visited2 g2) = {0..<fst g2} \<times> {0..<snd g2} \<and>
   distinct (visited3 g3) \<and>
   set (visited3 g3) = {0..<fst g3} \<times> {0..<fst (snd g3)} \<times> {0..<snd (snd g3)} \<and>
   runKernelAsync1 cudaSuccess g1 f1 (cudaSuccess, dev, s) =
     (cudaSuccess, dev,
      fold f1 (map (\<lambda>i. \<lparr>globalID = i, globalSize = g1\<rparr>) (visited1 g1)) s) \<and>
   runKernelAsync2 cudaSuccess g2 f2 (cudaSuccess, dev, s) =
     (cudaSuccess, dev,
      fold f2 (map (\<lambda>i. \<lparr>globalID = i, globalSize = g2\<rparr>) (visited2 g2)) s) \<and>
   runKernelAsync3 cudaSuccess g3 f3 (cudaSuccess, dev, s) =
     (cudaSuccess, dev,
      fold f3 (map (\<lambda>i. \<lparr>globalID = i, globalSize = g3\<rparr>) (visited3 g3)) s) \<and>
   runKernelAsync1 cudaSuccess g1 f1 (lastError, dev, s) =
     (cudaSuccess, checkError lastError dev,
      fold f1 (map (\<lambda>i. \<lparr>globalID = i, globalSize = g1\<rparr>) (visited1 g1)) s) \<and>
   runKernelAsync2 cudaSuccess g2 f2 (lastError, dev, s) =
     (cudaSuccess, checkError lastError dev,
      fold f2 (map (\<lambda>i. \<lparr>globalID = i, globalSize = g2\<rparr>) (visited2 g2)) s) \<and>
   runKernelAsync3 cudaSuccess g3 f3 (lastError, dev, s) =
     (cudaSuccess, checkError lastError dev,
      fold f3 (map (\<lambda>i. \<lparr>globalID = i, globalSize = g3\<rparr>) (visited3 g3)) s)"
proof -
  have ok: "checkError cudaSuccess dev = dev" by (simp add: checkError_def)
  show ?thesis
    using partition_covers
      distinct_visited1 [of g1] distinct_visited2 [of g2] distinct_visited3 [of g3]
      set_visited1 [of g1] set_visited2 [of g2] set_visited3 [of g3]
      run1_eq [of g1 f1 cudaSuccess dev s] run2_eq [of g2 f2 cudaSuccess dev s]
      run3_eq [of g3 f3 cudaSuccess dev s]
      run1_eq [of g1 f1 lastError dev s] run2_eq [of g2 f2 lastError dev s]
      run3_eq [of g3 f3 lastError dev s]
    unfolding ok by blast
qed

section \<open>The error surface\<close>

lemma Error_UNIV:
  "(UNIV :: Error set) =
   {NoneErr, Unknown, InvalidArgument, InvalidOperation, OutOfMemory, UnsupportedHardware,
    Cancelled}"
  by (auto intro: Error.exhaust)

lemma getError_eq:
  "getError st h = (code (errorSlot st h), putErrorSlot st h noError)"
  by (simp add: getError_def oidnGetDeviceError_def takeError_def)

lemma getErrorMessage_eq:
  "getErrorMessage st h =
   ((code (errorSlot st h), Some (message (errorSlot st h))), putErrorSlot st h noError)"
  by (simp add: getErrorMessage_def oidnGetDeviceError_def takeError_def)

text \<open>
  Claim C8. The error kinds are the seven enumerators \<open>None\<close>, \<open>Unknown\<close>,
  \<open>InvalidArgument\<close>, \<open>InvalidOperation\<close>, \<open>OutOfMemory\<close>, \<open>UnsupportedHardware\<close> and
  \<open>Cancelled\<close>, pairwise different, and no other. The accessor comes in two forms that
  return the same code and clear the same slot: one yields the code alone, the other the
  message string of the stored error as well.
\<close>

theorem error_surface:
  "(UNIV :: Error set) =
     {NoneErr, Unknown, InvalidArgument, InvalidOperation, OutOfMemory, UnsupportedHardware,
      Cancelled} \<and>
   card (UNIV :: Error set) = 7 \<and>
   getError st h = (code (errorSlot st h), putErrorSlot st h noError) \<and>
   getErrorMessage st h =
     ((code (errorSlot st h), Some (message (errorSlot st h))), putErrorSlot st h noError)"
proof -
  have "card (UNIV :: Error set) = 7" unfolding Error_UNIV by simp
  then show ?thesis using Error_UNIV getError_eq [of st h] getErrorMessage_eq [of st h] by blast
qed

section \<open>The single error slot\<close>

lemma errorSlot_put: "errorSlot (putErrorSlot st h slot) h = slot"
  by (cases h) (simp_all add: errorSlot_def putErrorSlot_def)

lemma errorSlot_record:
  "errorSlot (recordError st h c m) h = setError (errorSlot st h) c m"
  by (simp add: recordError_def errorSlot_put)

lemma recordError_pending:
  "code (errorSlot st h) = NoneErr \<Longrightarrow> e1 \<noteq> NoneErr \<Longrightarrow>
   recordError (recordError st h e1 m1) h e2 m2 = recordError st h e1 m1"
  by (cases h) (simp_all add: recordError_def errorSlot_def putErrorSlot_def setError_def)

text \<open>
  Claim C3. The error state of a device, the null device included, is one slot holding the
  first error not yet retrieved. With no error pending, after a first error and then a
  second one, the second is dropped; the accessor returns the code (and message) of the
  first and clears the slot, a further call returns \<open>None\<close>, and an error recorded after
  that is returned by the next call.
\<close>

theorem error_slot_first_unretrieved:
  assumes "code (errorSlot st h) = NoneErr" and "e1 \<noteq> NoneErr" and "e3 \<noteq> NoneErr"
  shows "recordError (recordError st h e1 m1) h e2 m2 = recordError st h e1 m1 \<and>
         fst (getError (recordError (recordError st h e1 m1) h e2 m2) h) = e1 \<and>
         fst (getErrorMessage (recordError (recordError st h e1 m1) h e2 m2) h) = (e1, Some m1) \<and>
         fst (getError (snd (getError (recordError (recordError st h e1 m1) h e2 m2) h)) h)
           = NoneErr \<and>
         fst (getError (recordError
                (snd (getError (recordError (recordError st h e1 m1) h e2 m2) h)) h e3 m3) h)
           = e3"
  using assms recordError_pending [of st h e1 m1 e2 m2]
  by (simp add: getError_eq getErrorMessage_eq errorSlot_record errorSlot_put setError_def
        noError_def)

theorem error_slot_first_unretrieved_witness:
  "code (errorSlot api0 None) = NoneErr \<and> code (errorSlot api0 (Some 3)) = NoneErr \<and>
   InvalidArgument \<noteq> NoneErr \<and> Cancelled \<noteq> NoneErr \<and>
   fst (getError (recordError (recordError api0 None InvalidArgument ''a'') None OutOfMemory ''b'')
          None) = InvalidArgument \<and>
   fst (getError (snd (getError
          (recordError (recordError api0 None InvalidArgument ''a'') None OutOfMemory ''b'') None))
          None) = NoneErr \<and>
   fst (getError (recordError (recordError api0 (Some 3) InvalidArgument ''a'') (Some 3)
          OutOfMemory ''b'') (Some 3)) = InvalidArgument \<and>
   fst (getError (snd (getError
          (recordError (recordError api0 (Some 3) InvalidArgument ''a'') (Some 3) OutOfMemory ''b'')
          (Some 3))) (Some 3)) = NoneErr"
  using error_slot_first_unretrieved
          [of api0 None InvalidArgument Cancelled "''a''" OutOfMemory "''b''" "''c''"]
        error_slot_first_unretrieved
          [of api0 "Some 3" InvalidArgument Cancelled "''a''" OutOfMemory "''b''" "''c''"]
  by (simp add: api0_def errorSlot_def noError_def getError_def oidnGetDeviceError_def
        takeError_def recordError_def putErrorSlot_def setError_def)

section \<open>Reference counting of the handle wrappers\<close>

lemma finite_owners: "finite (dom (objs w)) \<Longrightarrow> finite (owners w r)"
  by (rule finite_subset [of _ "dom (objs w)"]) (auto simp: owners_def)

lemma balancedD:
  "balanced w \<Longrightarrow> finite (dom (objs w))"
  "balanced w \<Longrightarrow> refCount w r = card (owners w r)"
  "balanced w \<Longrightarrow> finite (owners w r)"
  by (simp_all add: balanced_def finite_owners)

lemma owner_count_pos:
  "balanced w \<Longrightarrow> objs w a = Some (Some r) \<Longrightarrow> 0 < refCount w r"
proof -
  assume b: "balanced w" and a: "objs w a = Some (Some r)"
  have "a \<in> owners w r" using a by (simp add: owners_def)
  then have "0 < card (owners w r)" using balancedD(3) [OF b, of r] by (auto simp: card_gt_0_iff)
  then show ?thesis using balancedD(2) [OF b, of r] by simp
qed

lemma sole_owner:
  "balanced w \<Longrightarrow> objs w a = Some (Some r) \<Longrightarrow> refCount w r \<le> 1 \<longleftrightarrow> owners w r = {a}"
proof -
  assume b: "balanced w" and a: "objs w a = Some (Some r)"
  have mem: "a \<in> owners w r" using a by (simp add: owners_def)
  have c: "refCount w r = card (owners w r)" using b by (simp add: balanced_def)
  show ?thesis
  proof
    assume "refCount w r \<le> 1"
    then have "card (owners w r) = 1" using c owner_count_pos [OF b a] by simp
    then obtain x where "owners w r = {x}" by (auto simp: card_1_singleton_iff)
    then show "owners w r = {a}" using mem by auto
  next
    assume "owners w r = {a}"
    then show "refCount w r \<le> 1" using c by simp
  qed
qed

text \<open>Adding an owner and a reference, or taking both away, keeps the balance.\<close>

lemma balanced_gain:
  assumes "balanced w" and "objs w a \<noteq> Some (Some r)"
    and "objs w' = (objs w)(a \<mapsto> Some r)"
    and "refCount w' = (refCount w)(r := Suc (refCount w r))"
    and "\<And>q. q \<noteq> r \<Longrightarrow> objs w a \<noteq> Some (Some q)"
  shows "balanced w'"
  unfolding balanced_def
proof (intro conjI allI)
  show "finite (dom (objs w'))" using balancedD(1) [OF assms(1)] by (simp add: assms(3))
  fix x
  have ow: "owners w' x = (if x = r then insert a (owners w r) else owners w x)"
    using assms(5) [of x] by (auto simp: owners_def assms(3))
  have "a \<notin> owners w r" using assms(2) by (simp add: owners_def)
  then show "refCount w' x = card (owners w' x)"
    using balancedD(2) [OF assms(1)] balancedD(3) [OF assms(1), of r]
    by (simp add: ow assms(4))
qed

lemma balanced_loss:
  assumes "balanced w" and "objs w b = Some (Some q)"
    and "\<And>x. x \<noteq> b \<Longrightarrow> objs w' x = objs w x" and "objs w' b \<noteq> Some (Some q)"
    and "\<And>r. r \<noteq> q \<Longrightarrow> objs w' b \<noteq> Some (Some r)"
    and "refCount w' = (refCount w)(q := refCount w q - 1)"
  shows "balanced w'"
  unfolding balanced_def
proof (intro conjI allI)
  have "dom (objs w') \<subseteq> dom (objs w)"
  proof
    fix x assume "x \<in> dom (objs w')"
    then show "x \<in> dom (objs w)" using assms(2) assms(3) [of x]
      by (cases "x = b") (auto simp: dom_def)
  qed
  then show "finite (dom (objs w'))" using balancedD(1) [OF assms(1)] by (rule finite_subset)
  fix x
  have ow: "owners w' x = (if x = q then owners w q - {b} else owners w x)"
  proof (rule set_eqI)
    fix y
    show "y \<in> owners w' x \<longleftrightarrow> y \<in> (if x = q then owners w q - {b} else owners w x)"
      using assms(2) assms(3) [of y] assms(4) assms(5) [of x]
      by (cases "y = b") (auto simp: owners_def)
  qed
  have "b \<in> owners w q" using assms(2) by (simp add: owners_def)
  then show "refCount w' x = card (owners w' x)"
    using balancedD(2) [OF assms(1)] balancedD(3) [OF assms(1), of q]
    by (simp add: ow assms(6) card_Diff_singleton)
qed


lemma balanced_same:
  "balanced w \<Longrightarrow> objs w' = objs w \<Longrightarrow> refCount w' = refCount w \<Longrightarrow> balanced w'"
  by (simp add: balanced_def owners_def)

lemma copy_ctor_step:
  assumes "balanced w" and "objs w other = Some (Some r)" and "objs w a = None"
  shows "\<exists>w'. Ref_copy_ctor k a other w = Some w' \<and> calls w' = calls w @ [Retain k r] \<and>
           objs w' = (objs w)(a \<mapsto> Some r) \<and> destroyed w' = destroyed w \<and> balanced w'"
proof -
  let ?w' = "oidnRetain k r (w\<lparr>objs := (objs w)(a \<mapsto> Some r)\<rparr>)"
  have "balanced ?w'"
    by (rule balanced_gain [OF assms(1), of a r]) (simp_all add: assms(3) oidnRetain_def)
  then show ?thesis
    by (simp add: Ref_copy_ctor_def assms(2) retainIf_def oidnRetain_def)
qed

lemma dtor_step:
  assumes "balanced w" and "objs w b = Some (Some q)"
  shows "\<exists>w'. Ref_dtor k b w = Some w' \<and> calls w' = calls w @ [Release k q] \<and>
           objs w' = (objs w)(b := None) \<and>
           destroyed w' = (if owners w q = {b} then insert q (destroyed w) else destroyed w) \<and>
           balanced w'"
proof -
  let ?w' = "(oidnRelease k q w)\<lparr>objs := (objs (oidnRelease k q w))(b := None)\<rparr>"
  have "balanced ?w'"
    by (rule balanced_loss [OF assms(1) assms(2)]) (simp_all add: oidnRelease_def)
  then show ?thesis
    using sole_owner [OF assms(1) assms(2)]
    by (simp add: Ref_dtor_def assms(2) releaseIf_def oidnRelease_def Let_def)
qed

lemma copy_assign_step:
  assumes "balanced w" and "objs w other = Some (Some r)" and "objs w b = Some (Some q)"
    and "b \<noteq> other"
  shows "\<exists>w'. Ref_copy_assign k b other w = Some w' \<and>
           calls w' = calls w @ [Retain k r, Release k q] \<and>
           objs w' = (objs w)(b \<mapsto> Some r) \<and>
           destroyed w' = (if owners w q = {b} then insert q (destroyed w) else destroyed w) \<and>
           balanced w'"
proof -
  let ?w2 = "oidnRelease k q (oidnRetain k r w)"
  let ?w' = "?w2\<lparr>objs := (objs ?w2)(b \<mapsto> Some r)\<rparr>"
  have run: "Ref_copy_assign k b other w = Some ?w'"
    using assms(4) by (simp add: Ref_copy_assign_def assms(2,3) retainIf_def releaseIf_def Let_def)
  have log: "calls ?w' = calls w @ [Retain k r, Release k q]"
    by (simp add: oidnRelease_def oidnRetain_def)
  have store: "objs ?w' = (objs w)(b \<mapsto> Some r)"
    by (simp add: oidnRelease_def oidnRetain_def)
  have bal: "balanced ?w'"
  proof (cases "q = r")
    case True
    have "(objs w)(b \<mapsto> Some r) = objs w" using assms(3) True by (auto simp: fun_upd_idem_iff)
    then have "objs ?w' = objs w" using store by simp
    moreover have "refCount ?w' = refCount w"
      using True by (auto simp: oidnRelease_def oidnRetain_def)
    ultimately show ?thesis using assms(1) by (rule balanced_same [rotated])
  next
    case False
    let ?wm = "w\<lparr>objs := (objs w)(b \<mapsto> None), refCount := (refCount w)(q := refCount w q - 1)\<rparr>"
    have m: "balanced ?wm"
      by (rule balanced_loss [OF assms(1) assms(3)]) simp_all
    show ?thesis
      by (rule balanced_gain [OF m, of b r])
         (use False in \<open>auto simp: oidnRelease_def oidnRetain_def\<close>)
  qed
  have gone: "destroyed ?w' = (if owners w q = {b} then insert q (destroyed w) else destroyed w)"
  proof (cases "q = r")
    case True
    have "other \<in> owners w q" using assms(2) True by (simp add: owners_def)
    then have "owners w q \<noteq> {b}" using assms(4) by auto
    moreover have "0 < refCount w r" using owner_count_pos [OF assms(1) assms(2)] .
    ultimately show ?thesis using True by (simp add: oidnRelease_def oidnRetain_def)
  next
    case False
    then show ?thesis
      using sole_owner [OF assms(1) assms(3)] by (simp add: oidnRelease_def oidnRetain_def)
  qed
  show ?thesis using run log store gone bal by blast
qed

lemma self_assign_step: "objs w b = Some h \<Longrightarrow> Ref_copy_assign k b b w = Some w"
  by (simp add: Ref_copy_assign_def)

text \<open>
  Claim C4, as amended. In a balanced world, for wrappers with non-null handles: copy
  construction makes exactly one retain call, on the copied handle; copy assignment from a
  different wrapper object makes exactly one retain call on the new handle followed by one
  release call on the replaced handle, while assignment of a wrapper to itself makes no
  call and changes nothing; destruction makes exactly one release call. Each of them keeps
  the world balanced, and a resource is released exactly when the wrapper that gives it up
  was its only owner.
\<close>

theorem Ref_copy_retains_once_balanced:
  assumes "balanced w" and "objs w other = Some (Some r)" and "objs w a = None"
    and "objs w b = Some (Some q)" and "b \<noteq> other"
  shows "(\<exists>w'. Ref_copy_ctor k a other w = Some w' \<and> calls w' = calls w @ [Retain k r] \<and>
           objs w' = (objs w)(a \<mapsto> Some r) \<and> destroyed w' = destroyed w \<and> balanced w') \<and>
         (\<exists>w'. Ref_copy_assign k b other w = Some w' \<and>
           calls w' = calls w @ [Retain k r, Release k q] \<and>
           objs w' = (objs w)(b \<mapsto> Some r) \<and>
           destroyed w' = (if owners w q = {b} then insert q (destroyed w) else destroyed w) \<and>
           balanced w') \<and>
         Ref_copy_assign k b b w = Some w \<and>
         (\<exists>w'. Ref_dtor k b w = Some w' \<and> calls w' = calls w @ [Release k q] \<and>
           objs w' = (objs w)(b := None) \<and>
           destroyed w' = (if owners w q = {b} then insert q (destroyed w) else destroyed w) \<and>
           balanced w')"
  using copy_ctor_step [OF assms(1,2,3), of k] copy_assign_step [OF assms(1,2,4,5), of k]
    self_assign_step [OF assms(4), of k] dtor_step [OF assms(1,4), of k]
  by blast

lemma owners_world0:
  "owners world0 r = (if r = 7 then {0} else if r = 8 then {2} else {})"
  by (auto simp: owners_def world0_def split: if_splits)

lemma balanced_world0: "balanced world0"
  unfolding balanced_def owners_world0
  by (simp add: world0_def)

theorem Ref_copy_retains_once_balanced_witness:
  "balanced world0 \<and> objs world0 0 = Some (Some 7) \<and> objs world0 1 = None \<and>
   objs world0 2 = Some (Some 8) \<and> (2 :: nat) \<noteq> 0 \<and>
   map_option calls (Ref_copy_ctor BufferRef 1 0 world0) = Some [Retain BufferRef 7] \<and>
   map_option calls (Ref_copy_assign BufferRef 2 0 world0) =
     Some [Retain BufferRef 7, Release BufferRef 8] \<and>
   map_option calls (Ref_dtor BufferRef 2 world0) = Some [Release BufferRef 8] \<and>
   map_option destroyed (Ref_dtor BufferRef 2 world0) = Some {8}"
  using Ref_copy_retains_once_balanced [of world0 0 7 1 2 8 BufferRef] balanced_world0
  by (simp add: world0_def Ref_copy_ctor_def Ref_copy_assign_def Ref_dtor_def retainIf_def
        releaseIf_def oidnRetain_def oidnRelease_def Let_def)

text \<open>
  Claim C4 as stated fails for the assignment of a wrapper to itself: the wrapper at
  address 0 holds the non-null handle 7, and assigning it to itself makes neither a retain
  nor a release call.
\<close>

theorem Ref_self_assign_no_calls:
  "objs world0 0 = Some (Some 7) \<and> calls world0 = [] \<and>
   map_option calls (Ref_copy_assign BufferRef 0 0 world0) = Some [] \<and>
   map_option calls (Ref_copy_assign BufferRef 0 0 world0)
     \<noteq> Some (calls world0 @ [Retain BufferRef 7, Release BufferRef 7])"
  by (simp add: world0_def Ref_copy_assign_def)

section \<open>Move construction\<close>

lemma move_ctor_balanced:
  assumes "balanced w" and "objs w other = Some h" and "objs w a = None"
  shows "balanced (w\<lparr>objs := (objs w)(a \<mapsto> h, other \<mapsto> None)\<rparr>)"
  unfolding balanced_def
proof (intro conjI allI)
  let ?w' = "w\<lparr>objs := (objs w)(a \<mapsto> h, other \<mapsto> None)\<rparr>"
  have ne: "a \<noteq> other" using assms(2,3) by auto
  show "finite (dom (objs ?w'))" using balancedD(1) [OF assms(1)] by simp
  fix r
  show "refCount ?w' r = card (owners ?w' r)"
  proof (cases "h = Some r")
    case True
    have ow: "owners ?w' r = insert a (owners w r - {other})"
      using True ne by (auto simp: owners_def)
    have mem: "other \<in> owners w r" "a \<notin> owners w r"
      using assms(2,3) True by (simp_all add: owners_def)
    have fin: "finite (owners w r)" using balancedD(3) [OF assms(1), of r] .
    have "0 < card (owners w r)" using mem(1) fin by (auto simp: card_gt_0_iff)
    then have "card (insert a (owners w r - {other})) = card (owners w r)"
      using mem fin by (simp add: card_Diff_singleton)
    then show ?thesis using balancedD(2) [OF assms(1), of r] ow by simp
  next
    case False
    have "owners ?w' r = owners w r" using False assms(2,3) ne by (auto simp: owners_def)
    then show ?thesis using balancedD(2) [OF assms(1), of r] by simp
  qed
qed

text \<open>
  Claim C10. Move construction hands the handle over to the new wrapper without any retain
  or release call, leaves the reference counts and the released resources as they are and
  the handle of the moved-from wrapper null; it keeps a balanced world balanced.
  Destroying the moved-from wrapper afterwards makes no release call either.
\<close>

theorem Ref_move_ctor_transfers:
  assumes "objs w other = Some h" and "objs w a = None"
  shows "\<exists>w'. Ref_move_ctor k a other w = Some w' \<and>
           calls w' = calls w \<and> refCount w' = refCount w \<and> destroyed w' = destroyed w \<and>
           objs w' = (objs w)(a \<mapsto> h, other \<mapsto> None) \<and>
           (balanced w \<longrightarrow> balanced w') \<and>
           (\<exists>w''. Ref_dtor k other w' = Some w'' \<and>
              calls w'' = calls w \<and> refCount w'' = refCount w \<and> destroyed w'' = destroyed w \<and>
              objs w'' = (objs w)(a \<mapsto> h, other := None))"
proof -
  have "a \<noteq> other" using assms by auto
  then show ?thesis
    using move_ctor_balanced [OF _ assms]
    by (simp add: Ref_move_ctor_def assms(1) Ref_dtor_def releaseIf_def Let_def)
qed

theorem Ref_move_ctor_transfers_witness:
  "objs world0 0 = Some (Some 7) \<and> objs world0 1 = None \<and> balanced world0 \<and>
   map_option calls (Ref_move_ctor BufferRef 1 0 world0) = Some [] \<and>
   map_option refCount (Ref_move_ctor BufferRef 1 0 world0) = Some (refCount world0) \<and>
   map_option (\<lambda>w. (objs w 0, objs w 1)) (Ref_move_ctor BufferRef 1 0 world0) =
     Some (Some None, Some (Some 7)) \<and>
   map_option calls (Option.bind (Ref_move_ctor BufferRef 1 0 world0) (Ref_dtor BufferRef 0))
     = Some []"
  using Ref_move_ctor_transfers [of world0 0 "Some 7" 1 BufferRef] balanced_world0
  by (simp add: world0_def Ref_move_ctor_def Ref_dtor_def releaseIf_def Let_def)

end
